theory Spec2Isabelle
  imports Main "HOL-Library.AList" "HOL-Library.Word"
begin

unbundle bit_operations_syntax

section \<open>JavaScript values\<close>

text \<open>
  The adapter of \<^verbatim>\<open>src/drivers/MongoDriver.ts\<close> moves plain data between its caller
  and a MongoDB collection. A value is one of the JavaScript data values below; an
  \<^verbatim>\<open>ObjectId\<close> is its twelve bytes, a 96-bit word. Numbers are the integer-valued ones:
  the adapter never calculates with a number, it only compares and forwards them.

  An object is the list of its own enumerable properties, looked up with \<open>map_of\<close>.
  The claims below are stated through lookups, so they do not depend on the order in
  which an engine enumerates the keys.
\<close>

datatype jsval =
    Undefined
  | Null
  | Bool bool
  | Num int
  | Str string
  | Oid "96 word"
  | Arr "jsval list"
  | Obj "(string \<times> jsval) list"

type_synonym obj = "(string \<times> jsval) list"

text \<open>
  What a call can throw: an \<^verbatim>\<open>Error\<close> of the adapter with its message, a
  \<^verbatim>\<open>TypeError\<close> of the language, or an error of the MongoDB client, which the adapter
  never catches.
\<close>

datatype error = Error string | TypeError | StoreError string

text \<open>Reading a property, \<^verbatim>\<open>o.k\<close>: a missing property reads as \<^verbatim>\<open>undefined\<close>.\<close>

definition obj_get :: "obj \<Rightarrow> string \<Rightarrow> jsval" where
  "obj_get ob k = (case map_of ob k of None \<Rightarrow> Undefined | Some v \<Rightarrow> v)"

text \<open>
  An ordinary assignment \<^verbatim>\<open>o[k] = v\<close> to an object created by \<^verbatim>\<open>{}\<close>. For the key
  \<^verbatim>\<open>__proto__\<close> the assignment runs the setter inherited from \<^verbatim>\<open>Object.prototype\<close>: it
  creates no own property (the prototype itself is outside this model). Object
  literals, spreads and rest patterns define properties and have no such exception:
  they are \<open>AList.update\<close> and \<open>AList.delete\<close>.
\<close>

definition assign :: "obj \<Rightarrow> string \<Rightarrow> jsval \<Rightarrow> obj" where
  "assign ob k v = (if k = ''__proto__'' then ob else AList.update k v ob)"

text \<open>Truthiness, for \<^verbatim>\<open>a || b\<close>.\<close>

fun truthy :: "jsval \<Rightarrow> bool" where
  "truthy Undefined = False"
| "truthy Null = False"
| "truthy (Bool b) = b"
| "truthy (Num n) = (n \<noteq> 0)"
| "truthy (Str s) = (s \<noteq> [])"
| "truthy _ = True"

subsection \<open>Text forms\<close>

definition digit_char :: "nat \<Rightarrow> char" where
  "digit_char n = ''0123456789'' ! (n mod 10)"

definition hex_char :: "nat \<Rightarrow> char" where
  "hex_char n = ''0123456789abcdef'' ! (n mod 16)"

text \<open>\<^verbatim>\<open>ObjectId.prototype.toString\<close>: the 24 lower-case hexadecimal digits of the bytes.\<close>

definition toHexString :: "96 word \<Rightarrow> string" where
  "toHexString w = map (\<lambda>i. hex_char (unat (drop_bit (4 * (23 - i)) w AND 15))) [0..<24]"

fun digits :: "nat \<Rightarrow> string" where
  "digits n = (if n < 10 then [digit_char n] else digits (n div 10) @ [digit_char n])"

declare digits.simps [simp del]

definition number_string :: "int \<Rightarrow> string" where
  "number_string n = (if n < 0 then CHR ''-'' # digits (nat (- n)) else digits (nat n))"

fun join_comma :: "string list \<Rightarrow> string" where
  "join_comma [] = []"
| "join_comma [s] = s"
| "join_comma (s # t # ts) = s @ '','' @ join_comma (t # ts)"

text \<open>
  \<^verbatim>\<open>v.toString()\<close>. On \<^verbatim>\<open>undefined\<close> and \<^verbatim>\<open>null\<close> the property read throws. A plain
  object answers \<^verbatim>\<open>[object Object]\<close> unless it has an own property \<^verbatim>\<open>toString\<close>, which
  is data here and so not callable. An array joins its elements with commas, an
  \<^verbatim>\<open>undefined\<close> or \<^verbatim>\<open>null\<close> element giving the empty string. A number is written in
  decimal, as JavaScript does for an integer of magnitude below \<open>10\<^sup>2\<^sup>1\<close>.
\<close>

fun toString :: "jsval \<Rightarrow> error + string"
  and elements :: "jsval list \<Rightarrow> error + string list" where
  "toString Undefined = Inl TypeError"
| "toString Null = Inl TypeError"
| "toString (Bool b) = Inr (if b then ''true'' else ''false'')"
| "toString (Num n) = Inr (number_string n)"
| "toString (Str s) = Inr s"
| "toString (Oid w) = Inr (toHexString w)"
| "toString (Arr xs) =
     (case elements xs of Inl e \<Rightarrow> Inl e | Inr ss \<Rightarrow> Inr (join_comma ss))"
| "toString (Obj ob) =
     (case map_of ob ''toString'' of None \<Rightarrow> Inr ''[object Object]'' | Some v \<Rightarrow> Inl TypeError)"
| "elements [] = Inr []"
| "elements (x # xs) =
     (case (if x = Undefined \<or> x = Null then Inr [] else toString x) of
        Inl e \<Rightarrow> Inl e
      | Inr s \<Rightarrow> (case elements xs of Inl e \<Rightarrow> Inl e | Inr ss \<Rightarrow> Inr (s # ss)))"

subsection \<open>Timestamps\<close>

text \<open>
  \<^verbatim>\<open>new Date()\<close> reads the clock: a number of milliseconds since 1970-01-01T00:00Z.
  \<^verbatim>\<open>toISOString\<close> writes it as \<^verbatim>\<open>YYYY-MM-DDTHH:mm:ss.sssZ\<close> in the proleptic Gregorian
  calendar, with a sign and six digits for a year outside 0..9999. The date is
  computed from the day number counted from 0000-03-01, split into 400-year eras of
  146097 days.
\<close>

definition pad2 :: "nat \<Rightarrow> string" where
  "pad2 n = [digit_char (n div 10), digit_char n]"

definition pad3 :: "nat \<Rightarrow> string" where
  "pad3 n = digit_char (n div 100) # pad2 n"

definition pad4 :: "nat \<Rightarrow> string" where
  "pad4 n = digit_char (n div 1000) # pad3 n"

definition pad6 :: "nat \<Rightarrow> string" where
  "pad6 n = digit_char (n div 100000) # digit_char (n div 10000) # pad4 n"

definition year_of_era :: "int \<Rightarrow> int" where
  "year_of_era doe = (doe - doe div 1460 + doe div 36524 - doe div 146096) div 365"

definition day_of_year :: "int \<Rightarrow> int" where
  "day_of_year doe =
     doe - (365 * year_of_era doe + year_of_era doe div 4 - year_of_era doe div 100)"

definition month_index :: "int \<Rightarrow> int" where
  "month_index doe = (5 * day_of_year doe + 2) div 153"

definition iso_day :: "int \<Rightarrow> int" where
  "iso_day z = day_of_year (z mod 146097) - (153 * month_index (z mod 146097) + 2) div 5 + 1"

definition iso_month :: "int \<Rightarrow> int" where
  "iso_month z =
     (if month_index (z mod 146097) < 10 then month_index (z mod 146097) + 3
      else month_index (z mod 146097) - 9)"

definition iso_year :: "int \<Rightarrow> int" where
  "iso_year z =
     year_of_era (z mod 146097) + (z div 146097) * 400 + (if iso_month z \<le> 2 then 1 else 0)"

definition year_string :: "int \<Rightarrow> string" where
  "year_string y =
     (if 0 \<le> y \<and> y \<le> 9999 then pad4 (nat y)
      else (if y < 0 then CHR ''-'' else CHR ''+'') # pad6 (nat \<bar>y\<bar>))"

definition toISOString :: "int \<Rightarrow> string" where
  "toISOString t =
     year_string (iso_year (t div 86400000 + 719468)) @ ''-''
     @ pad2 (nat (iso_month (t div 86400000 + 719468))) @ ''-''
     @ pad2 (nat (iso_day (t div 86400000 + 719468))) @ ''T''
     @ pad2 (nat (t mod 86400000 div 3600000)) @ '':''
     @ pad2 (nat (t mod 3600000 div 60000)) @ '':''
     @ pad2 (nat (t mod 60000 div 1000)) @ ''.''
     @ pad3 (nat (t mod 1000)) @ ''Z''"

section \<open>The MongoDB client\<close>

text \<open>
  The adapter imports \<^verbatim>\<open>MongoClient\<close>, \<^verbatim>\<open>Collection\<close> and \<^verbatim>\<open>ObjectId\<close> from the package
  \<^verbatim>\<open>mongodb\<close>, which is not part of the sources. What the adapter calls is a parameter
  of the model: a record of functions over a state \<open>'s\<close>, which stands for the client
  object and everything behind it (the connection, the server, the stored documents).
  Every call returns its result, or the error it throws, with the state it leaves.
  A collection handle is the pair of its database name and its own name.
\<close>

type_synonym collection_handle = "string \<times> string"

type_synonym ('s, 'a) call = "'s \<Rightarrow> (error + 'a) \<times> 's"

record 's mongodb =
  oid_isValid :: "string \<Rightarrow> bool"
  oid_new :: "string \<Rightarrow> 96 word"
  client_new :: "string \<Rightarrow> jsval \<Rightarrow> 's"
  client_connect :: "('s, unit) call"
  client_close :: "('s, unit) call"
  coll_insertOne :: "collection_handle \<Rightarrow> obj \<Rightarrow> ('s, jsval) call"
  coll_find :: "collection_handle \<Rightarrow> obj \<Rightarrow> ('s, obj list) call"
  coll_findOne :: "collection_handle \<Rightarrow> obj \<Rightarrow> ('s, obj option) call"
  coll_updateMany :: "collection_handle \<Rightarrow> obj \<Rightarrow> obj \<Rightarrow> ('s, nat) call"
  coll_deleteMany :: "collection_handle \<Rightarrow> obj \<Rightarrow> ('s, nat) call"
  coll_countDocuments :: "collection_handle \<Rightarrow> obj \<Rightarrow> obj option \<Rightarrow> ('s, nat) call"
  coll_createIndex :: "collection_handle \<Rightarrow> jsval \<Rightarrow> jsval \<Rightarrow> ('s, string) call"
  coll_dropIndex :: "collection_handle \<Rightarrow> string \<Rightarrow> ('s, unit) call"
  coll_listIndexes :: "collection_handle \<Rightarrow> ('s, jsval list) call"
  coll_aggregate :: "collection_handle \<Rightarrow> jsval list \<Rightarrow> ('s, jsval list) call"
  coll_drop :: "collection_handle \<Rightarrow> ('s, unit) call"

text \<open>
  \<open>oid_isValid\<close> is \<^verbatim>\<open>ObjectId.isValid\<close> on a string and \<open>oid_new\<close> is \<^verbatim>\<open>new ObjectId\<close> on a
  string it accepts. \<open>coll_find\<close> is \<^verbatim>\<open>find(q).toArray()\<close>; \<open>coll_insertOne\<close> answers the
  \<^verbatim>\<open>insertedId\<close>, \<open>coll_updateMany\<close> the \<^verbatim>\<open>modifiedCount\<close>, \<open>coll_deleteMany\<close> the
  \<^verbatim>\<open>deletedCount\<close>. The options of \<open>coll_countDocuments\<close> are \<open>None\<close> when the call
  passes none.
\<close>

section \<open>The adapter\<close>

record MongoDriverOptions =
  uri :: string
  databaseName :: string
  collectionName :: string
  clientOptions :: jsval

record 's MongoDriver = MongoDriverOptions +
  client :: 's
  db :: "string option"
  collection :: "collection_handle option"

definition not_connected :: error where
  "not_connected = Error ''Database not connected. Call connect() first.''"

definition constructor :: "'s mongodb \<Rightarrow> MongoDriverOptions \<Rightarrow> 's MongoDriver" where
  "constructor M options =
     (let opts = (if truthy (clientOptions options) then clientOptions options else Obj [])
      in \<lparr>uri = uri options, databaseName = databaseName options,
          collectionName = collectionName options, clientOptions = opts,
          client = client_new M (uri options) opts, db = None, collection = None\<rparr>)"

definition connect :: "'s mongodb \<Rightarrow> 's MongoDriver \<Rightarrow> (error + unit) \<times> 's MongoDriver" where
  "connect M this =
     (case client_connect M (client this) of
        (Inl e, c) \<Rightarrow> (Inl e, this\<lparr>client := c\<rparr>)
      | (Inr u, c) \<Rightarrow>
          (Inr (), this\<lparr>client := c, db := Some (databaseName this),
                         collection := Some (databaseName this, collectionName this)\<rparr>))"

definition disconnect :: "'s mongodb \<Rightarrow> 's MongoDriver \<Rightarrow> (error + unit) \<times> 's MongoDriver" where
  "disconnect M this =
     (case client_close M (client this) of
        (Inl e, c) \<Rightarrow> (Inl e, this\<lparr>client := c\<rparr>)
      | (Inr u, c) \<Rightarrow> (Inr (), this\<lparr>client := c, db := None, collection := None\<rparr>))"

text \<open>
  \<open>ensureConnected\<close> throws when the collection handle is null; otherwise the caller
  goes on with \<^verbatim>\<open>this.collection!\<close>, the handle returned here.
\<close>

definition ensureConnected :: "'s MongoDriver \<Rightarrow> error + collection_handle" where
  "ensureConnected this =
     (case collection this of None \<Rightarrow> Inl not_connected | Some coll \<Rightarrow> Inr coll)"

text \<open>
  The body of every method after \<open>ensureConnected\<close> is one awaited call of the client:
  \<open>request\<close> runs it on the client state and maps its result.
\<close>

definition request ::
  "'s MongoDriver \<Rightarrow> ('s, 'a) call \<Rightarrow> ('a \<Rightarrow> error + 'b) \<Rightarrow> (error + 'b) \<times> 's MongoDriver" where
  "request this f k =
     (case f (client this) of
        (Inl e, c) \<Rightarrow> (Inl e, this\<lparr>client := c\<rparr>)
      | (Inr x, c) \<Rightarrow> (k x, this\<lparr>client := c\<rparr>))"

subsection \<open>Query and document conversion\<close>

text \<open>One round of the loop of \<open>convertQuery\<close> over \<^verbatim>\<open>Object.entries(query)\<close>.\<close>

definition convertQuery_entry :: "'s mongodb \<Rightarrow> obj \<Rightarrow> string \<times> jsval \<Rightarrow> obj" where
  "convertQuery_entry M mongoQuery entry =
     (case entry of (key, val) \<Rightarrow>
        if key = ''_id'' then
          (case val of
             Str s \<Rightarrow>
               if oid_isValid M s then AList.update ''_id'' (Oid (oid_new M s)) mongoQuery
               else AList.update ''_id'' val mongoQuery
           | Num n \<Rightarrow> AList.update ''_id'' val mongoQuery
           | _ \<Rightarrow> AList.update ''_id'' val mongoQuery)
        else assign mongoQuery key val)"

definition convertQuery :: "'s mongodb \<Rightarrow> obj \<Rightarrow> obj" where
  "convertQuery M query = foldl (convertQuery_entry M) [] query"

definition convertDocument :: "obj \<Rightarrow> obj" where
  "convertDocument doc =
     (let id = obj_get doc ''_id''; rest = AList.delete ''_id'' doc
      in (''_id'', (case id of Oid w \<Rightarrow> Str (toHexString w) | _ \<Rightarrow> id)) # rest)"

subsection \<open>Data operations\<close>

text \<open>
  \<open>set\<close> reads the clock twice, once for each timestamp: \<open>now1\<close> and \<open>now2\<close> are the two
  readings, in the order of the object literal. \<open>record_of\<close> is the local \<^verbatim>\<open>record\<close>, the
  document handed to \<^verbatim>\<open>insertOne\<close>. The client may add the identifier it generates to
  the object it is given; the returned record sets \<^verbatim>\<open>_id\<close> after the spread in any case,
  so its fields are those of \<open>record_of\<close> with \<^verbatim>\<open>_id\<close> replaced.
\<close>

definition record_of :: "int \<Rightarrow> int \<Rightarrow> obj \<Rightarrow> obj" where
  "record_of now1 now2 data =
     AList.update ''_updatedAt'' (Str (toISOString now2))
       (AList.update ''_createdAt'' (Str (toISOString now1)) data)"

definition set_op ::
  "'s mongodb \<Rightarrow> int \<Rightarrow> int \<Rightarrow> 's MongoDriver \<Rightarrow> obj \<Rightarrow> (error + obj) \<times> 's MongoDriver" where
  "set_op M now1 now2 this data =
     (case ensureConnected this of
        Inl e \<Rightarrow> (Inl e, this)
      | Inr coll \<Rightarrow>
          request this (coll_insertOne M coll (record_of now1 now2 data))
            (\<lambda>insertedId.
               case toString insertedId of
                 Inl e \<Rightarrow> Inl e
               | Inr s \<Rightarrow> Inr (AList.update ''_id'' (Str s) (record_of now1 now2 data))))"

definition get :: "'s mongodb \<Rightarrow> 's MongoDriver \<Rightarrow> obj \<Rightarrow> (error + obj list) \<times> 's MongoDriver" where
  "get M this query =
     (case ensureConnected this of
        Inl e \<Rightarrow> (Inl e, this)
      | Inr coll \<Rightarrow>
          request this (coll_find M coll (convertQuery M query))
            (\<lambda>results. Inr (map convertDocument results)))"

definition getOne ::
  "'s mongodb \<Rightarrow> 's MongoDriver \<Rightarrow> obj \<Rightarrow> (error + obj option) \<times> 's MongoDriver" where
  "getOne M this query =
     (case ensureConnected this of
        Inl e \<Rightarrow> (Inl e, this)
      | Inr coll \<Rightarrow>
          request this (coll_findOne M coll (convertQuery M query))
            (\<lambda>result. Inr (case result of None \<Rightarrow> None | Some doc \<Rightarrow> Some (convertDocument doc))))"

text \<open>\<open>updateData\<close> is the local of that name after \<^verbatim>\<open>delete updateData._id\<close>.\<close>

definition updateData :: "int \<Rightarrow> obj \<Rightarrow> obj" where
  "updateData now data =
     AList.delete ''_id'' (AList.update ''_updatedAt'' (Str (toISOString now)) data)"

definition update ::
  "'s mongodb \<Rightarrow> int \<Rightarrow> 's MongoDriver \<Rightarrow> obj \<Rightarrow> obj \<Rightarrow> (error + nat) \<times> 's MongoDriver" where
  "update M now this query data =
     (case ensureConnected this of
        Inl e \<Rightarrow> (Inl e, this)
      | Inr coll \<Rightarrow>
          request this
            (coll_updateMany M coll (convertQuery M query) [(''$set'', Obj (updateData now data))])
            Inr)"

definition delete :: "'s mongodb \<Rightarrow> 's MongoDriver \<Rightarrow> obj \<Rightarrow> (error + nat) \<times> 's MongoDriver" where
  "delete M this query =
     (case ensureConnected this of
        Inl e \<Rightarrow> (Inl e, this)
      | Inr coll \<Rightarrow> request this (coll_deleteMany M coll (convertQuery M query)) Inr)"

definition exists :: "'s mongodb \<Rightarrow> 's MongoDriver \<Rightarrow> obj \<Rightarrow> (error + bool) \<times> 's MongoDriver" where
  "exists M this query =
     (case ensureConnected this of
        Inl e \<Rightarrow> (Inl e, this)
      | Inr coll \<Rightarrow>
          request this
            (coll_countDocuments M coll (convertQuery M query) (Some [(''limit'', Num 1)]))
            (\<lambda>count. Inr (count > 0)))"

definition count :: "'s mongodb \<Rightarrow> 's MongoDriver \<Rightarrow> obj \<Rightarrow> (error + nat) \<times> 's MongoDriver" where
  "count M this query =
     (case ensureConnected this of
        Inl e \<Rightarrow> (Inl e, this)
      | Inr coll \<Rightarrow> request this (coll_countDocuments M coll (convertQuery M query) None) Inr)"

subsection \<open>Store management\<close>

definition createIndex ::
  "'s mongodb \<Rightarrow> 's MongoDriver \<Rightarrow> jsval \<Rightarrow> jsval \<Rightarrow> (error + string) \<times> 's MongoDriver" where
  "createIndex M this fieldOrSpec options =
     (case ensureConnected this of
        Inl e \<Rightarrow> (Inl e, this)
      | Inr coll \<Rightarrow> request this (coll_createIndex M coll fieldOrSpec options) Inr)"

definition dropIndex ::
  "'s mongodb \<Rightarrow> 's MongoDriver \<Rightarrow> string \<Rightarrow> (error + unit) \<times> 's MongoDriver" where
  "dropIndex M this indexName =
     (case ensureConnected this of
        Inl e \<Rightarrow> (Inl e, this)
      | Inr coll \<Rightarrow> request this (coll_dropIndex M coll indexName) Inr)"

definition listIndexes ::
  "'s mongodb \<Rightarrow> 's MongoDriver \<Rightarrow> (error + jsval list) \<times> 's MongoDriver" where
  "listIndexes M this =
     (case ensureConnected this of
        Inl e \<Rightarrow> (Inl e, this)
      | Inr coll \<Rightarrow> request this (coll_listIndexes M coll) Inr)"

definition aggregate ::
  "'s mongodb \<Rightarrow> 's MongoDriver \<Rightarrow> jsval list \<Rightarrow> (error + jsval list) \<times> 's MongoDriver" where
  "aggregate M this pipeline =
     (case ensureConnected this of
        Inl e \<Rightarrow> (Inl e, this)
      | Inr coll \<Rightarrow> request this (coll_aggregate M coll pipeline) Inr)"

definition clear :: "'s mongodb \<Rightarrow> 's MongoDriver \<Rightarrow> (error + unit) \<times> 's MongoDriver" where
  "clear M this =
     (case ensureConnected this of
        Inl e \<Rightarrow> (Inl e, this)
      | Inr coll \<Rightarrow> request this (coll_deleteMany M coll []) (\<lambda>deleted. Inr ()))"

definition drop_op :: "'s mongodb \<Rightarrow> 's MongoDriver \<Rightarrow> (error + unit) \<times> 's MongoDriver" where
  "drop_op M this =
     (case ensureConnected this of
        Inl e \<Rightarrow> (Inl e, this)
      | Inr coll \<Rightarrow> request this (coll_drop M coll) Inr)"

section \<open>A reference store\<close>

text \<open>
  A small in-memory instance of the client interface, on which the theorems below are
  run at concrete inputs. It holds one collection as a list of documents, reads a
  filter as equality on top-level fields and an update as a top-level \<^verbatim>\<open>$set\<close>, and keeps
  MongoDB's rules for the identifier: a document inserted without one gets a fresh
  \<^verbatim>\<open>ObjectId\<close>, a document inserted with one keeps it, and two documents never share
  one. It accepts as \<^verbatim>\<open>ObjectId\<close> text exactly the strings of 24 hexadecimal digits.
\<close>

record memstore =
  docs :: "obj list"
  next_oid :: "96 word"

definition hex_digits :: "(char \<times> nat) list" where
  "hex_digits = zip ''0123456789abcdefABCDEF''
     [0, 1, 2, 3, 4, 5, 6, 7, 8, 9, 10, 11, 12, 13, 14, 15, 10, 11, 12, 13, 14, 15]"

definition hex24 :: "string \<Rightarrow> bool" where
  "hex24 s \<longleftrightarrow> length s = 24 \<and> list_all (\<lambda>c. map_of hex_digits c \<noteq> None) s"

definition oid_of_hex :: "string \<Rightarrow> 96 word" where
  "oid_of_hex s =
     foldl (\<lambda>w c. 16 * w + (case map_of hex_digits c of None \<Rightarrow> 0 | Some d \<Rightarrow> of_nat d)) 0 s"

definition mem_matches :: "obj \<Rightarrow> obj \<Rightarrow> bool" where
  "mem_matches filter_doc doc = list_all (\<lambda>(k, v). obj_get doc k = v) filter_doc"

definition mem_merge :: "obj \<Rightarrow> obj \<Rightarrow> obj" where
  "mem_merge patch doc = foldl (\<lambda>acc (k, v). AList.update k v acc) doc patch"

definition mem_insertOne :: "obj \<Rightarrow> (memstore, jsval) call" where
  "mem_insertOne doc s =
     (let id = (case obj_get doc ''_id'' of
                  Undefined \<Rightarrow> Oid (next_oid s) | Null \<Rightarrow> Oid (next_oid s) | v \<Rightarrow> v)
      in if id \<in> set (map (\<lambda>d. obj_get d ''_id'') (docs s))
         then (Inl (StoreError ''E11000 duplicate key error''), s)
         else (Inr id, s\<lparr>docs := docs s @ [(''_id'', id) # AList.delete ''_id'' doc],
                         next_oid := next_oid s + 1\<rparr>))"

definition mem_find :: "obj \<Rightarrow> (memstore, obj list) call" where
  "mem_find q s = (Inr (filter (mem_matches q) (docs s)), s)"

definition mem_findOne :: "obj \<Rightarrow> (memstore, obj option) call" where
  "mem_findOne q s =
     (Inr (case filter (mem_matches q) (docs s) of [] \<Rightarrow> None | d # ds \<Rightarrow> Some d), s)"

definition mem_updateMany :: "obj \<Rightarrow> obj \<Rightarrow> (memstore, nat) call" where
  "mem_updateMany q u s =
     (case map_of u ''$set'' of
        Some (Obj patch) \<Rightarrow>
          (Inr (length (filter (\<lambda>d. mem_matches q d \<and> mem_merge patch d \<noteq> d) (docs s))),
           s\<lparr>docs := map (\<lambda>d. if mem_matches q d then mem_merge patch d else d) (docs s)\<rparr>)
      | _ \<Rightarrow> (Inl (StoreError ''unsupported update''), s))"

definition mem_deleteMany :: "obj \<Rightarrow> (memstore, nat) call" where
  "mem_deleteMany q s =
     (Inr (length (filter (mem_matches q) (docs s))),
      s\<lparr>docs := filter (\<lambda>d. \<not> mem_matches q d) (docs s)\<rparr>)"

definition mem_countDocuments :: "obj \<Rightarrow> obj option \<Rightarrow> (memstore, nat) call" where
  "mem_countDocuments q options s =
     (let n = length (filter (mem_matches q) (docs s))
      in (Inr (case options of
                 None \<Rightarrow> n
               | Some opts \<Rightarrow>
                   (case obj_get opts ''limit'' of
                      Num l \<Rightarrow> if 0 < l then min n (nat l) else n
                    | _ \<Rightarrow> n)), s))"

definition mem :: "memstore mongodb" where
  "mem = \<lparr>oid_isValid = hex24, oid_new = oid_of_hex,
     client_new = (\<lambda>uri opts. \<lparr>docs = [], next_oid = 0\<rparr>),
     client_connect = (\<lambda>s. (Inr (), s)),
     client_close = (\<lambda>s. (Inr (), s)),
     coll_insertOne = (\<lambda>coll. mem_insertOne),
     coll_find = (\<lambda>coll. mem_find),
     coll_findOne = (\<lambda>coll. mem_findOne),
     coll_updateMany = (\<lambda>coll. mem_updateMany),
     coll_deleteMany = (\<lambda>coll. mem_deleteMany),
     coll_countDocuments = (\<lambda>coll. mem_countDocuments),
     coll_createIndex = (\<lambda>coll spec opts s. (Inr ''index'', s)),
     coll_dropIndex = (\<lambda>coll name s. (Inr (), s)),
     coll_listIndexes = (\<lambda>coll s. (Inr [], s)),
     coll_aggregate = (\<lambda>coll pipeline s. (Inr [], s)),
     coll_drop = (\<lambda>coll s. (Inr (), s\<lparr>docs := []\<rparr>))\<rparr>"

text \<open>An adapter on the reference store, before and after \<open>connect\<close>.\<close>

definition fresh :: "memstore MongoDriver" where
  "fresh = constructor mem \<lparr>uri = ''mongodb://localhost:27017'', databaseName = ''test'',
     collectionName = ''items'', clientOptions = Undefined\<rparr>"

definition connected :: "memstore MongoDriver" where
  "connected = snd (connect mem fresh)"

definition one_record :: "memstore MongoDriver" where
  "one_record = snd (set_op mem 0 0 connected [(''name'', Str ''a'')])"

section \<open>What the store is assumed to do with a limit\<close>

text \<open>
  \<^verbatim>\<open>countDocuments\<close> with the option \<^verbatim>\<open>limit: 1\<close> stops counting at one: on the same
  state it answers the smaller of 1 and the full count, and fails when the full count
  fails.
\<close>

definition limit_one_law :: "'s mongodb \<Rightarrow> bool" where
  "limit_one_law M \<longleftrightarrow>
     (\<forall>coll q s. fst (coll_countDocuments M coll q (Some [(''limit'', Num 1)]) s)
        = map_sum id (min 1) (fst (coll_countDocuments M coll q None s)))"

section \<open>Evaluation and lookup lemmas\<close>

lemmas iso_defs =
  toISOString_def year_string_def iso_year_def iso_month_def iso_day_def month_index_def
  day_of_year_def year_of_era_def pad2_def pad3_def pad4_def pad6_def digit_char_def

lemmas mem_defs =
  mem_def mem_insertOne_def mem_find_def mem_findOne_def mem_updateMany_def mem_deleteMany_def
  mem_countDocuments_def mem_matches_def mem_merge_def fresh_def connected_def constructor_def
  connect_def disconnect_def Let_def

lemmas call_defs = ensureConnected_def request_def

lemma obj_get_update: "obj_get (AList.update k v ob) k' = (if k' = k then v else obj_get ob k')"
  by (simp add: obj_get_def update_conv')

lemma obj_get_delete: "obj_get (AList.delete k ob) k' = (if k' = k then Undefined else obj_get ob k')"
  by (simp add: obj_get_def delete_conv')

lemma length_toHexString: "length (toHexString w) = 24"
  by (simp add: toHexString_def)

lemma collection_connected: "collection connected = Some (''test'', ''items'')"
  by (simp add: mem_defs)

lemma client_connected: "client connected = \<lparr>docs = [], next_oid = 0\<rparr>"
  by (simp add: mem_defs)

lemma toHexString_0: "toHexString 0 = ''000000000000000000000000''"
  by (simp add: toHexString_def hex_char_def upt_rec)

lemma one_record_eq:
  "one_record = connected\<lparr>client := \<lparr>docs = [[(''_id'', Oid 0), (''name'', Str ''a''),
     (''_createdAt'', Str (toISOString 0)), (''_updatedAt'', Str (toISOString 0))]],
     next_oid = 1\<rparr>\<rparr>"
  by (simp add: one_record_def set_op_def call_defs record_of_def collection_connected
      client_connected mem_def mem_insertOne_def Let_def obj_get_def toHexString_0)

lemma collection_one_record: "collection one_record = Some (''test'', ''items'')"
  by (simp add: one_record_eq collection_connected)

lemma toISOString_0: "toISOString 0 = ''1970-01-01T00:00:00.000Z''"
  by (simp add: iso_defs)

lemma toISOString_1: "toISOString 1 = ''1970-01-01T00:00:00.001Z''"
  by (simp add: iso_defs)

lemma toISOString_5: "toISOString 5 = ''1970-01-01T00:00:00.005Z''"
  by (simp add: iso_defs)

lemma request_Inr:
  "request this f Inr = (case f (client this) of (result, c) \<Rightarrow> (result, this\<lparr>client := c\<rparr>))"
  by (simp add: request_def split: prod.splits sum.splits)

lemma updateData_lookup:
  "map_of (updateData now data) k =
     (if k = ''_id'' then None
      else if k = ''_updatedAt'' then Some (Str (toISOString now)) else map_of data k)"
  by (simp add: updateData_def delete_conv' update_conv')

lemma mem_limit_one_law: "limit_one_law mem"
  by (simp add: limit_one_law_def mem_def mem_countDocuments_def Let_def obj_get_def min.commute)

lemma record_of_lookup:
  "map_of (record_of now1 now2 data) k =
     (if k = ''_updatedAt'' then Some (Str (toISOString now2))
      else if k = ''_createdAt'' then Some (Str (toISOString now1)) else map_of data k)"
  by (simp add: record_of_def update_conv')

lemma mem_merge_other_key:
  "map_of patch k = None \<Longrightarrow> obj_get (mem_merge patch doc) k = obj_get doc k"
proof -
  have "k \<notin> fst ` set patch \<Longrightarrow>
      map_of (foldl (\<lambda>acc (k, v). AList.update k v acc) doc patch) k = map_of doc k" for doc
  proof (induction patch arbitrary: doc)
    case Nil
    then show ?case by simp
  next
    case (Cons entry patch)
    then show ?case
      by (cases entry) (simp add: update_conv')
  qed
  then show "map_of patch k = None \<Longrightarrow> obj_get (mem_merge patch doc) k = obj_get doc k"
    by (simp add: mem_merge_def obj_get_def map_of_eq_None_iff)
qed

lemma update_mem_keeps_ids:
  "map (\<lambda>d. obj_get d ''_id'') (docs (client (snd (update mem now stored query patch))))
     = map (\<lambda>d. obj_get d ''_id'') (docs (client stored))"
proof (cases "collection stored")
  case None
  then show ?thesis
    by (simp add: update_def ensureConnected_def)
next
  case (Some coll)
  have "obj_get (mem_merge (updateData now patch) d) ''_id'' = obj_get d ''_id''" for d
    by (rule mem_merge_other_key) (simp add: updateData_lookup)
  then show ?thesis
    using Some
    by (simp add: update_def ensureConnected_def request_Inr mem_def mem_updateMany_def comp_def)
qed

section \<open>The record returned by set\<close>

text \<open>
  Claim C1, as the code has it. The record returned by \<open>set\<close> carries the two timestamps,
  each the ISO-8601 text of a clock reading taken during the call: \<^verbatim>\<open>_createdAt\<close> of the
  first reading and \<^verbatim>\<open>_updatedAt\<close> of the second. Its identifier is text: the text form
  of the identifier the store reports for the insert, 24 characters long when the store
  reports a native \<^verbatim>\<open>ObjectId\<close>.
\<close>

theorem set_returned_record:
  assumes "set_op M now1 now2 this data = (Inr r, this')"
  shows "obj_get r ''_createdAt'' = Str (toISOString now1) \<and>
         obj_get r ''_updatedAt'' = Str (toISOString now2) \<and>
         (\<exists>coll insertedId c s.
            collection this = Some coll \<and>
            coll_insertOne M coll (record_of now1 now2 data) (client this) = (Inr insertedId, c) \<and>
            toString insertedId = Inr s \<and> obj_get r ''_id'' = Str s \<and>
            ((\<exists>w. insertedId = Oid w) \<longrightarrow> length s = 24))"
proof -
  from assms obtain coll where coll: "collection this = Some coll"
    by (auto simp: set_op_def call_defs split: option.splits)
  obtain res c where ins: "coll_insertOne M coll (record_of now1 now2 data) (client this) = (res, c)"
    by (cases "coll_insertOne M coll (record_of now1 now2 data) (client this)")
  from assms coll ins obtain insertedId s where
    res: "res = Inr insertedId" and s: "toString insertedId = Inr s"
    and r: "r = AList.update ''_id'' (Str s) (record_of now1 now2 data)"
    by (auto simp: set_op_def call_defs split: sum.splits)
  have "obj_get r ''_createdAt'' = Str (toISOString now1)"
    and "obj_get r ''_updatedAt'' = Str (toISOString now2)"
    and "obj_get r ''_id'' = Str s"
    by (simp_all add: r record_of_def obj_get_update)
  moreover have "(\<exists>w. insertedId = Oid w) \<longrightarrow> length s = 24"
    using s by (auto simp: length_toHexString)
  ultimately show ?thesis
    using coll ins res s by blast
qed


text \<open>The theorem at work: one insert into the empty reference store.\<close>

theorem set_returned_record_witness:
  "set_op mem 5 5 connected [(''name'', Str ''a'')] =
     (Inr [(''name'', Str ''a''), (''_createdAt'', Str (toISOString 5)),
           (''_updatedAt'', Str (toISOString 5)), (''_id'', Str ''000000000000000000000000'')],
      connected\<lparr>client := \<lparr>docs = [[(''_id'', Oid 0), (''name'', Str ''a''),
         (''_createdAt'', Str (toISOString 5)), (''_updatedAt'', Str (toISOString 5))]],
         next_oid = 1\<rparr>\<rparr>) \<and>
   (\<exists>coll insertedId c s.
      collection connected = Some coll \<and>
      coll_insertOne mem coll (record_of 5 5 [(''name'', Str ''a'')]) (client connected)
        = (Inr insertedId, c) \<and>
      toString insertedId = Inr s \<and>
      Str ''000000000000000000000000'' = Str s \<and>
      ((\<exists>w. insertedId = Oid w) \<longrightarrow> length s = 24))"
proof -
  have run: "set_op mem 5 5 connected [(''name'', Str ''a'')] =
     (Inr [(''name'', Str ''a''), (''_createdAt'', Str (toISOString 5)),
           (''_updatedAt'', Str (toISOString 5)), (''_id'', Str ''000000000000000000000000'')],
      connected\<lparr>client := \<lparr>docs = [[(''_id'', Oid 0), (''name'', Str ''a''),
         (''_createdAt'', Str (toISOString 5)), (''_updatedAt'', Str (toISOString 5))]],
         next_oid = 1\<rparr>\<rparr>)"
    by (simp add: set_op_def call_defs record_of_def collection_connected client_connected
        mem_def mem_insertOne_def Let_def obj_get_def toHexString_def hex_char_def upt_rec)
  from set_returned_record [OF run] run show ?thesis
    by (simp add: obj_get_def)
qed

text \<open>
  Claim C1 as stated fails. When the clock advances between the two readings the two
  timestamps differ, and a caller who supplies the empty string as identifier gets it
  back as the identifier of the returned record.
\<close>

theorem set_timestamps_counterexample:
  "fst (set_op mem 0 1 connected [(''_id'', Str []), (''name'', Str ''a'')]) =
     Inr [(''_id'', Str []), (''name'', Str ''a''),
          (''_createdAt'', Str ''1970-01-01T00:00:00.000Z''),
          (''_updatedAt'', Str ''1970-01-01T00:00:00.001Z'')] \<and>
   obj_get (projr (fst (set_op mem 0 1 connected [(''_id'', Str []), (''name'', Str ''a'')])))
     ''_createdAt'' \<noteq>
   obj_get (projr (fst (set_op mem 0 1 connected [(''_id'', Str []), (''name'', Str ''a'')])))
     ''_updatedAt'' \<and>
   obj_get (projr (fst (set_op mem 0 1 connected [(''_id'', Str []), (''name'', Str ''a'')])))
     ''_id'' = Str []"
  by (simp add: set_op_def call_defs record_of_def collection_connected client_connected
      mem_def mem_insertOne_def Let_def obj_get_def iso_defs)


section \<open>Operations without a connection\<close>

text \<open>
  Claim C8. While the collection handle is null, every data operation and every
  store-management operation throws the adapter's own ``not connected'' error and
  returns the adapter as it was, the client state included: whatever the client would
  do with a request, none reaches it. This holds for every client \<open>M\<close>. The error is
  the adapter's \<^verbatim>\<open>Error\<close>, not an error of the store.
\<close>

theorem not_connected_fails:
  assumes "collection this = None"
  shows "not_connected = Error ''Database not connected. Call connect() first.'' \<and>
         set_op M now1 now2 this data = (Inl not_connected, this) \<and>
         get M this query = (Inl not_connected, this) \<and>
         getOne M this query = (Inl not_connected, this) \<and>
         update M now this query data = (Inl not_connected, this) \<and>
         delete M this query = (Inl not_connected, this) \<and>
         exists M this query = (Inl not_connected, this) \<and>
         count M this query = (Inl not_connected, this) \<and>
         createIndex M this fieldOrSpec options = (Inl not_connected, this) \<and>
         dropIndex M this indexName = (Inl not_connected, this) \<and>
         listIndexes M this = (Inl not_connected, this) \<and>
         aggregate M this pipeline = (Inl not_connected, this) \<and>
         clear M this = (Inl not_connected, this) \<and>
         drop_op M this = (Inl not_connected, this)"
proof -
  have "ensureConnected this = Inl not_connected"
    using assms by (simp add: ensureConnected_def)
  then show ?thesis
    by (simp add: set_op_def get_def getOne_def update_def delete_def exists_def count_def
        createIndex_def dropIndex_def listIndexes_def aggregate_def clear_def drop_op_def)
      (simp add: not_connected_def)
qed

text \<open>The theorem on the adapter that was constructed and never connected.\<close>

theorem not_connected_fails_witness:
  "collection fresh = None \<and>
   set_op mem 0 0 fresh [(''name'', Str ''a'')] = (Inl not_connected, fresh) \<and>
   get mem fresh [] = (Inl not_connected, fresh) \<and>
   update mem 0 fresh [] [(''name'', Str ''b'')] = (Inl not_connected, fresh) \<and>
   drop_op mem fresh = (Inl not_connected, fresh)"
proof -
  have h: "collection fresh = None"
    by (simp add: fresh_def constructor_def Let_def)
  from not_connected_fails [OF h] h show ?thesis
    by simp
qed

section \<open>After disconnect\<close>

text \<open>
  Claim C9. When \<open>disconnect\<close> returns, the client has been closed and the database and
  collection handles are null, as they are in a newly constructed adapter; every data
  and store-management operation then fails with the ``not connected'' error and leaves
  the adapter as it is; and a further \<open>disconnect\<close> leaves the handles null.
\<close>

theorem disconnect_clears_handles:
  assumes "disconnect M this = (Inr u, this')"
  shows "client_close M (client this) = (Inr u, client this') \<and>
         db this' = None \<and> collection this' = None \<and>
         db this' = db (constructor M opts) \<and>
         collection this' = collection (constructor M opts) \<and>
         db (snd (disconnect M this')) = None \<and>
         collection (snd (disconnect M this')) = None \<and>
         set_op M now1 now2 this' data = (Inl not_connected, this') \<and>
         get M this' query = (Inl not_connected, this') \<and>
         getOne M this' query = (Inl not_connected, this') \<and>
         update M now this' query data = (Inl not_connected, this') \<and>
         delete M this' query = (Inl not_connected, this') \<and>
         exists M this' query = (Inl not_connected, this') \<and>
         count M this' query = (Inl not_connected, this') \<and>
         createIndex M this' fieldOrSpec options = (Inl not_connected, this') \<and>
         dropIndex M this' indexName = (Inl not_connected, this') \<and>
         listIndexes M this' = (Inl not_connected, this') \<and>
         aggregate M this' pipeline = (Inl not_connected, this') \<and>
         clear M this' = (Inl not_connected, this') \<and>
         drop_op M this' = (Inl not_connected, this')"
proof -
  from assms have handles: "db this' = None" "collection this' = None"
    and closed: "client_close M (client this) = (Inr u, client this')"
    by (auto simp: disconnect_def split: prod.splits sum.splits)
  have fresh_handles: "db (constructor M opts) = None" "collection (constructor M opts) = None"
    by (simp_all add: constructor_def Let_def)
  have again: "db (snd (disconnect M this')) = None"
    "collection (snd (disconnect M this')) = None"
    using handles by (auto simp: disconnect_def split: prod.splits sum.splits)
  show ?thesis
    using handles closed fresh_handles again
    by (simp add: ensureConnected_def set_op_def get_def getOne_def update_def delete_def
        exists_def count_def createIndex_def dropIndex_def listIndexes_def aggregate_def
        clear_def drop_op_def)
qed

text \<open>The theorem on the connected adapter of the reference store.\<close>

theorem disconnect_clears_handles_witness:
  "disconnect mem connected = (Inr (), fresh) \<and>
   collection fresh = None \<and>
   get mem fresh [(''name'', Str ''a'')] = (Inl not_connected, fresh) \<and>
   count mem fresh [] = (Inl not_connected, fresh)"
proof -
  have h: "disconnect mem connected = (Inr (), fresh)"
    by (simp add: mem_defs)
  from disconnect_clears_handles [OF h] h show ?thesis
    by simp
qed

section \<open>Normalising a document\<close>

text \<open>
  Claim C5. \<open>convertDocument\<close> turns the identifier into its hexadecimal text when it is
  a native \<^verbatim>\<open>ObjectId\<close> and leaves it as it is otherwise, so the identifier changes
  exactly when it is a native one; every other field is passed through.
\<close>

theorem convertDocument_normalizes:
  "obj_get (convertDocument doc) ''_id'' =
     (case obj_get doc ''_id'' of Oid w \<Rightarrow> Str (toHexString w) | v \<Rightarrow> v) \<and>
   ((\<exists>w. obj_get doc ''_id'' = Oid w) \<longleftrightarrow>
      obj_get (convertDocument doc) ''_id'' \<noteq> obj_get doc ''_id'') \<and>
   (\<forall>k. k \<noteq> ''_id'' \<longrightarrow> map_of (convertDocument doc) k = map_of doc k)"
  by (cases "obj_get doc ''_id''") (auto simp: convertDocument_def Let_def obj_get_def)

text \<open>A stored document with a native identifier, and one with a numeric identifier.\<close>

theorem convertDocument_normalizes_witness:
  "obj_get (convertDocument [(''_id'', Oid 255), (''name'', Str ''a'')]) ''_id''
     = Str ''0000000000000000000000ff'' \<and>
   map_of (convertDocument [(''_id'', Oid 255), (''name'', Str ''a'')]) ''name''
     = Some (Str ''a'') \<and>
   obj_get (convertDocument [(''_id'', Num 7), (''name'', Str ''a'')]) ''_id'' = Num 7"
  using convertDocument_normalizes [of "[(''_id'', Oid 255), (''name'', Str ''a'')]"]
    convertDocument_normalizes [of "[(''_id'', Num 7), (''name'', Str ''a'')]"]
  by (simp add: obj_get_def toHexString_def hex_char_def upt_rec)


section \<open>What update takes from the caller\<close>

text \<open>
  Claim C2, as the code has it. Whatever the patch holds, the \<^verbatim>\<open>$set\<close> payload that
  \<open>update\<close> sends has no identifier field, and its \<^verbatim>\<open>_updatedAt\<close> is the clock reading
  of the call, also when the patch supplies one. Every other field of the patch is sent
  as the caller gave it, \<^verbatim>\<open>_createdAt\<close> among them. On the reference store, where
  \<^verbatim>\<open>$set\<close> writes the fields of the payload into each matching document, no update
  changes the identifier of any stored record.
\<close>

theorem update_payload:
  assumes "collection this = Some coll"
  shows "(\<exists>payload.
           update M now this query patch =
             (case coll_updateMany M coll (convertQuery M query) [(''$set'', Obj payload)]
                     (client this) of
                (result, c) \<Rightarrow> (result, this\<lparr>client := c\<rparr>)) \<and>
           map_of payload ''_id'' = None \<and>
           map_of payload ''_updatedAt'' = Some (Str (toISOString now)) \<and>
           (\<forall>k. k \<noteq> ''_id'' \<longrightarrow> k \<noteq> ''_updatedAt'' \<longrightarrow> map_of payload k = map_of patch k)) \<and>
         map (\<lambda>d. obj_get d ''_id'') (docs (client (snd (update mem now stored query patch))))
           = map (\<lambda>d. obj_get d ''_id'') (docs (client stored))"
proof (intro exI conjI)
  show "map (\<lambda>d. obj_get d ''_id'') (docs (client (snd (update mem now stored query patch))))
           = map (\<lambda>d. obj_get d ''_id'') (docs (client stored))"
    by (rule update_mem_keeps_ids)
  show "update M now this query patch =
             (case coll_updateMany M coll (convertQuery M query)
                     [(''$set'', Obj (updateData now patch))] (client this) of
                (result, c) \<Rightarrow> (result, this\<lparr>client := c\<rparr>))"
    using assms by (simp add: update_def ensureConnected_def request_Inr)
qed (simp_all add: updateData_lookup)

text \<open>
  A patch that tries to set the identifier and the update timestamp: the stored
  identifier stays, the timestamp is the adapter's.
\<close>

theorem update_payload_witness:
  "collection one_record = Some (''test'', ''items'') \<and>
   update mem 1 one_record [] [(''_id'', Num 7), (''_updatedAt'', Str ''never''), (''name'', Str ''b'')] =
     (Inr 1, one_record\<lparr>client := \<lparr>docs = [[(''_id'', Oid 0), (''name'', Str ''b''),
        (''_createdAt'', Str (toISOString 0)), (''_updatedAt'', Str (toISOString 1))]],
        next_oid = 1\<rparr>\<rparr>)"
proof -
  have h: "collection one_record = Some (''test'', ''items'')"
    by (rule collection_one_record)
  from update_payload [OF h, of mem 1 "[]"
      "[(''_id'', Num 7), (''_updatedAt'', Str ''never''), (''name'', Str ''b'')]"]
  obtain payload where
    upd: "update mem 1 one_record [] [(''_id'', Num 7), (''_updatedAt'', Str ''never''), (''name'', Str ''b'')] =
       (case coll_updateMany mem (''test'', ''items'') (convertQuery mem []) [(''$set'', Obj payload)]
               (client one_record) of
          (result, c) \<Rightarrow> (result, one_record\<lparr>client := c\<rparr>))"
    by blast
  have "update mem 1 one_record [] [(''_id'', Num 7), (''_updatedAt'', Str ''never''), (''name'', Str ''b'')] =
     (Inr 1, one_record\<lparr>client := \<lparr>docs = [[(''_id'', Oid 0), (''name'', Str ''b''),
        (''_createdAt'', Str (toISOString 0)), (''_updatedAt'', Str (toISOString 1))]],
        next_oid = 1\<rparr>\<rparr>)"
    by (simp add: update_def call_defs collection_one_record)
       (simp add: one_record_eq mem_def mem_updateMany_def mem_matches_def mem_merge_def
        convertQuery_def updateData_def obj_get_def toISOString_0 toISOString_1)
  with h upd show ?thesis
    by simp
qed

text \<open>
  Claim C2 as stated fails for the creation timestamp: a patch that names \<^verbatim>\<open>_createdAt\<close>
  rewrites the stored creation timestamp.
\<close>

theorem update_createdAt_counterexample:
  "docs (client one_record) =
     [[(''_id'', Oid 0), (''name'', Str ''a''), (''_createdAt'', Str ''1970-01-01T00:00:00.000Z''),
       (''_updatedAt'', Str ''1970-01-01T00:00:00.000Z'')]] \<and>
   fst (update mem 1 one_record [(''name'', Str ''a'')] [(''_createdAt'', Str ''forged'')]) = Inr 1 \<and>
   docs (client (snd (update mem 1 one_record [(''name'', Str ''a'')]
                        [(''_createdAt'', Str ''forged'')]))) =
     [[(''_id'', Oid 0), (''name'', Str ''a''), (''_createdAt'', Str ''forged''),
       (''_updatedAt'', Str ''1970-01-01T00:00:00.001Z'')]]"
  by (simp add: update_def call_defs collection_one_record)
     (simp add: one_record_eq mem_def mem_updateMany_def mem_matches_def mem_merge_def
      convertQuery_def convertQuery_entry_def assign_def updateData_def obj_get_def
      toISOString_0 toISOString_1)

section \<open>What set inserts\<close>

text \<open>
  Claim C10, as the code has it. When \<open>set\<close> returns a record, the document it handed
  to \<^verbatim>\<open>insertOne\<close> holds every field of the input unchanged, a caller-supplied identifier
  included, except \<^verbatim>\<open>_createdAt\<close> and \<^verbatim>\<open>_updatedAt\<close>, which hold the adapter's two clock
  readings whatever the caller supplied. The returned record is that document with the
  identifier replaced by the text form of the identifier the store reports.
\<close>

theorem set_inserts_record:
  assumes "set_op M now1 now2 this data = (Inr r, this')"
  shows "\<exists>coll insertedId c s.
           collection this = Some coll \<and>
           coll_insertOne M coll (record_of now1 now2 data) (client this) = (Inr insertedId, c) \<and>
           this' = this\<lparr>client := c\<rparr> \<and>
           (\<forall>k. k \<noteq> ''_createdAt'' \<longrightarrow> k \<noteq> ''_updatedAt'' \<longrightarrow>
                map_of (record_of now1 now2 data) k = map_of data k) \<and>
           map_of (record_of now1 now2 data) ''_createdAt'' = Some (Str (toISOString now1)) \<and>
           map_of (record_of now1 now2 data) ''_updatedAt'' = Some (Str (toISOString now2)) \<and>
           toString insertedId = Inr s \<and>
           map_of r ''_id'' = Some (Str s) \<and>
           (\<forall>k. k \<noteq> ''_id'' \<longrightarrow> map_of r k = map_of (record_of now1 now2 data) k)"
proof -
  from assms obtain coll where coll: "collection this = Some coll"
    by (auto simp: set_op_def call_defs split: option.splits)
  obtain res c where ins: "coll_insertOne M coll (record_of now1 now2 data) (client this) = (res, c)"
    by (cases "coll_insertOne M coll (record_of now1 now2 data) (client this)")
  from assms coll ins obtain insertedId s where
    res: "res = Inr insertedId" and s: "toString insertedId = Inr s"
    and r: "r = AList.update ''_id'' (Str s) (record_of now1 now2 data)"
    and this': "this' = this\<lparr>client := c\<rparr>"
    by (auto simp: set_op_def call_defs split: sum.splits)
  have "map_of r ''_id'' = Some (Str s)"
    and "\<forall>k. k \<noteq> ''_id'' \<longrightarrow> map_of r k = map_of (record_of now1 now2 data) k"
    by (simp_all add: r update_conv')
  moreover have "\<forall>k. k \<noteq> ''_createdAt'' \<longrightarrow> k \<noteq> ''_updatedAt'' \<longrightarrow>
      map_of (record_of now1 now2 data) k = map_of data k"
    and "map_of (record_of now1 now2 data) ''_createdAt'' = Some (Str (toISOString now1))"
    and "map_of (record_of now1 now2 data) ''_updatedAt'' = Some (Str (toISOString now2))"
    by (simp_all add: record_of_lookup)
  ultimately show ?thesis
    using coll ins res s this' by blast
qed

text \<open>An insert with a caller-supplied numeric identifier.\<close>

theorem set_inserts_record_witness:
  "set_op mem 5 5 connected [(''_id'', Num 7), (''name'', Str ''a'')] =
     (Inr [(''_id'', Str ''7''), (''name'', Str ''a''), (''_createdAt'', Str (toISOString 5)),
           (''_updatedAt'', Str (toISOString 5))],
      connected\<lparr>client := \<lparr>docs = [[(''_id'', Num 7), (''name'', Str ''a''),
         (''_createdAt'', Str (toISOString 5)), (''_updatedAt'', Str (toISOString 5))]],
         next_oid = 1\<rparr>\<rparr>) \<and>
   map_of (record_of 5 5 [(''_id'', Num 7), (''name'', Str ''a'')]) ''_id'' = Some (Num 7) \<and>
   map_of (record_of 5 5 [(''_id'', Num 7), (''name'', Str ''a'')]) ''name'' = Some (Str ''a'')"
proof -
  have run: "set_op mem 5 5 connected [(''_id'', Num 7), (''name'', Str ''a'')] =
     (Inr [(''_id'', Str ''7''), (''name'', Str ''a''), (''_createdAt'', Str (toISOString 5)),
           (''_updatedAt'', Str (toISOString 5))],
      connected\<lparr>client := \<lparr>docs = [[(''_id'', Num 7), (''name'', Str ''a''),
         (''_createdAt'', Str (toISOString 5)), (''_updatedAt'', Str (toISOString 5))]],
         next_oid = 1\<rparr>\<rparr>)"
    by (simp add: set_op_def call_defs record_of_def collection_connected client_connected
        mem_def mem_insertOne_def Let_def obj_get_def number_string_def digits.simps
        digit_char_def)
  from set_inserts_record [OF run]
  have kept: "k \<noteq> ''_createdAt'' \<Longrightarrow> k \<noteq> ''_updatedAt'' \<Longrightarrow>
      map_of (record_of 5 5 [(''_id'', Num 7), (''name'', Str ''a'')]) k
        = map_of [(''_id'', Num 7), (''name'', Str ''a'')] k" for k
    by blast
  from kept [of "''_id''"] kept [of "''name''"] run show ?thesis
    by simp
qed

text \<open>
  Claim C10 as stated fails for the two timestamp fields: a creation timestamp in the
  input is replaced in the inserted document.
\<close>

theorem set_overwrites_createdAt_counterexample:
  "map_of [(''_createdAt'', Str ''2001-01-01T00:00:00.000Z''), (''name'', Str ''a'')] ''_createdAt''
     = Some (Str ''2001-01-01T00:00:00.000Z'') \<and>
   docs (client (snd (set_op mem 5 5 connected
      [(''_createdAt'', Str ''2001-01-01T00:00:00.000Z''), (''name'', Str ''a'')]))) =
     [[(''_id'', Oid 0), (''_createdAt'', Str ''1970-01-01T00:00:00.005Z''), (''name'', Str ''a''),
       (''_updatedAt'', Str ''1970-01-01T00:00:00.005Z'')]]"
  by (simp add: set_op_def call_defs record_of_def collection_connected client_connected
      mem_def mem_insertOne_def Let_def obj_get_def toISOString_5)

section \<open>Identifiers of fetched records\<close>

text \<open>
  Claim C6, as the code has it. The records returned by \<open>get\<close> and \<open>getOne\<close> are the
  store's documents passed through \<open>convertDocument\<close>. Their identifier is never a
  native \<^verbatim>\<open>ObjectId\<close>: it is the hexadecimal text where the store holds a native
  identifier, and the store's own value, text or not, everywhere else.
\<close>

theorem get_identifier_normalized:
  "(get M this query = (Inr rs, this') \<longrightarrow>
      (\<exists>coll found c.
          collection this = Some coll \<and>
          coll_find M coll (convertQuery M query) (client this) = (Inr found, c) \<and>
          rs = map convertDocument found \<and>
          map (\<lambda>r. obj_get r ''_id'') rs =
            map (\<lambda>d. case obj_get d ''_id'' of Oid w \<Rightarrow> Str (toHexString w) | v \<Rightarrow> v) found) \<and>
      (\<forall>r \<in> set rs. \<forall>w. obj_get r ''_id'' \<noteq> Oid w)) \<and>
   (getOne M this query = (Inr (Some r1), this1) \<longrightarrow>
      (\<exists>coll d c.
          collection this = Some coll \<and>
          coll_findOne M coll (convertQuery M query) (client this) = (Inr (Some d), c) \<and>
          r1 = convertDocument d \<and>
          obj_get r1 ''_id'' =
            (case obj_get d ''_id'' of Oid w \<Rightarrow> Str (toHexString w) | v \<Rightarrow> v)) \<and>
      (\<forall>w. obj_get r1 ''_id'' \<noteq> Oid w))"
proof -
  have id: "obj_get (convertDocument d) ''_id'' =
      (case obj_get d ''_id'' of Oid w \<Rightarrow> Str (toHexString w) | v \<Rightarrow> v)" for d
    by (simp add: convertDocument_def Let_def obj_get_def split: jsval.splits)
  have not_native: "obj_get (convertDocument d) ''_id'' \<noteq> Oid w" for d w
    by (cases "obj_get d ''_id''") (simp_all add: id)
  have many: "\<exists>coll found c.
          collection this = Some coll \<and>
          coll_find M coll (convertQuery M query) (client this) = (Inr found, c) \<and>
          rs = map convertDocument found"
    if "get M this query = (Inr rs, this')"
    using that
    by (auto simp: get_def call_defs split: option.splits prod.splits sum.splits)
  have one: "\<exists>coll d c.
          collection this = Some coll \<and>
          coll_findOne M coll (convertQuery M query) (client this) = (Inr (Some d), c) \<and>
          r1 = convertDocument d"
    if "getOne M this query = (Inr (Some r1), this1)"
    using that
    by (auto simp: getOne_def call_defs split: option.splits prod.splits sum.splits)
  show ?thesis
  proof (intro conjI impI)
    assume g: "get M this query = (Inr rs, this')"
    from many [OF g] obtain coll found c where
      f: "collection this = Some coll"
         "coll_find M coll (convertQuery M query) (client this) = (Inr found, c)"
         "rs = map convertDocument found"
      by blast
    have "map (\<lambda>r. obj_get r ''_id'') rs =
            map (\<lambda>d. case obj_get d ''_id'' of Oid w \<Rightarrow> Str (toHexString w) | v \<Rightarrow> v) found"
      by (simp add: f(3) id comp_def)
    with f show "\<exists>coll found c.
          collection this = Some coll \<and>
          coll_find M coll (convertQuery M query) (client this) = (Inr found, c) \<and>
          rs = map convertDocument found \<and>
          map (\<lambda>r. obj_get r ''_id'') rs =
            map (\<lambda>d. case obj_get d ''_id'' of Oid w \<Rightarrow> Str (toHexString w) | v \<Rightarrow> v) found"
      by blast
    show "\<forall>r \<in> set rs. \<forall>w. obj_get r ''_id'' \<noteq> Oid w"
      using f(3) not_native by auto
  next
    assume g: "getOne M this query = (Inr (Some r1), this1)"
    from one [OF g] obtain coll d c where
      f: "collection this = Some coll"
         "coll_findOne M coll (convertQuery M query) (client this) = (Inr (Some d), c)"
         "r1 = convertDocument d"
      by blast
    then show "\<exists>coll d c.
          collection this = Some coll \<and>
          coll_findOne M coll (convertQuery M query) (client this) = (Inr (Some d), c) \<and>
          r1 = convertDocument d \<and>
          obj_get r1 ''_id'' =
            (case obj_get d ''_id'' of Oid w \<Rightarrow> Str (toHexString w) | v \<Rightarrow> v)"
      using id by blast
    show "\<forall>w. obj_get r1 ''_id'' \<noteq> Oid w"
      using f(3) not_native by auto
  qed
qed

text \<open>Fetching the one record of the reference store, whose identifier is native.\<close>

theorem get_identifier_normalized_witness:
  "get mem one_record [] =
     (Inr [[(''_id'', Str ''000000000000000000000000''), (''name'', Str ''a''),
            (''_createdAt'', Str (toISOString 0)), (''_updatedAt'', Str (toISOString 0))]],
      one_record) \<and>
   getOne mem one_record [(''_id'', Str ''000000000000000000000000'')] =
     (Inr (Some [(''_id'', Str ''000000000000000000000000''), (''name'', Str ''a''),
            (''_createdAt'', Str (toISOString 0)), (''_updatedAt'', Str (toISOString 0))]),
      one_record) \<and>
   (\<forall>w. Str ''000000000000000000000000'' \<noteq> Oid w)"
proof -
  have g: "get mem one_record [] =
     (Inr [[(''_id'', Str ''000000000000000000000000''), (''name'', Str ''a''),
            (''_createdAt'', Str (toISOString 0)), (''_updatedAt'', Str (toISOString 0))]],
      one_record)"
    by (simp add: get_def call_defs collection_one_record)
       (simp add: one_record_eq mem_def mem_find_def mem_matches_def convertQuery_def
        convertDocument_def Let_def obj_get_def toHexString_0)
  have valid: "hex24 ''000000000000000000000000''"
    by (simp add: hex24_def hex_digits_def)
  have zero: "oid_of_hex ''000000000000000000000000'' = 0"
    by (simp add: oid_of_hex_def hex_digits_def)
  have g1: "getOne mem one_record [(''_id'', Str ''000000000000000000000000'')] =
     (Inr (Some [(''_id'', Str ''000000000000000000000000''), (''name'', Str ''a''),
            (''_createdAt'', Str (toISOString 0)), (''_updatedAt'', Str (toISOString 0))]),
      one_record)"
    by (simp add: getOne_def call_defs collection_one_record)
       (simp add: one_record_eq mem_def mem_findOne_def mem_matches_def convertQuery_def
        convertQuery_entry_def valid zero convertDocument_def Let_def obj_get_def toHexString_0)
  from get_identifier_normalized [of mem one_record "[]" _ one_record] g
    get_identifier_normalized [of mem one_record "[(''_id'', Str ''000000000000000000000000'')]" _ _ _ one_record] g1
  show ?thesis
    by simp
qed

text \<open>
  Claim C6 as stated fails: a record stored with a numeric identifier, which \<open>set\<close>
  accepts, comes back from \<open>get\<close> with that number as its identifier, not with text.
\<close>

theorem get_numeric_identifier_counterexample:
  "fst (get mem (snd (set_op mem 0 0 connected [(''_id'', Num 5), (''name'', Str ''a'')]))
          [(''name'', Str ''a'')]) =
     Inr [[(''_id'', Num 5), (''name'', Str ''a''),
           (''_createdAt'', Str ''1970-01-01T00:00:00.000Z''),
           (''_updatedAt'', Str ''1970-01-01T00:00:00.000Z'')]] \<and>
   obj_get (hd (projr (fst (get mem
       (snd (set_op mem 0 0 connected [(''_id'', Num 5), (''name'', Str ''a'')]))
       [(''name'', Str ''a'')])))) ''_id'' = Num 5"
proof -
  have stored: "snd (set_op mem 0 0 connected [(''_id'', Num 5), (''name'', Str ''a'')]) =
      connected\<lparr>client := \<lparr>docs = [[(''_id'', Num 5), (''name'', Str ''a''),
         (''_createdAt'', Str ''1970-01-01T00:00:00.000Z''),
         (''_updatedAt'', Str ''1970-01-01T00:00:00.000Z'')]], next_oid = 1\<rparr>\<rparr>"
    by (simp add: set_op_def call_defs record_of_def collection_connected client_connected
        mem_def mem_insertOne_def Let_def obj_get_def toISOString_0)
  show ?thesis
    unfolding stored
    by (simp add: get_def call_defs collection_connected mem_def mem_find_def mem_matches_def
        convertQuery_def convertQuery_entry_def assign_def convertDocument_def Let_def obj_get_def)
qed

section \<open>exists and count\<close>

text \<open>
  Claim C7. \<open>exists\<close> asks the store for one thing only: the count of the translated
  query with the option \<^verbatim>\<open>limit: 1\<close>, and answers whether that count is positive. On a
  store that keeps \<open>limit_one_law\<close>, \<open>exists\<close> and \<open>count\<close> on the same adapter state
  and query then agree: both fail with the same error, or \<open>exists\<close> answers true exactly
  when the count is positive.
\<close>

theorem exists_iff_count:
  assumes "limit_one_law M"
  shows "fst (exists M this query) = map_sum id (\<lambda>n. 0 < n) (fst (count M this query)) \<and>
         (\<forall>coll. collection this = Some coll \<longrightarrow>
            exists M this query =
              (case coll_countDocuments M coll (convertQuery M query) (Some [(''limit'', Num 1)])
                      (client this) of
                 (Inl e, c) \<Rightarrow> (Inl e, this\<lparr>client := c\<rparr>)
               | (Inr n, c) \<Rightarrow> (Inr (0 < n), this\<lparr>client := c\<rparr>)))"
proof (intro conjI allI impI)
  show "fst (exists M this query) = map_sum id (\<lambda>n. 0 < n) (fst (count M this query))"
  proof (cases "collection this")
    case None
    then show ?thesis
      by (simp add: exists_def count_def ensureConnected_def)
  next
    case (Some coll)
    from assms have law:
      "fst (coll_countDocuments M coll (convertQuery M query) (Some [(''limit'', Num 1)]) (client this))
         = map_sum id (min 1) (fst (coll_countDocuments M coll (convertQuery M query) None (client this)))"
      unfolding limit_one_law_def by blast
    obtain r1 c1 where one:
      "coll_countDocuments M coll (convertQuery M query) (Some [(''limit'', Num 1)]) (client this) = (r1, c1)"
      by (cases "coll_countDocuments M coll (convertQuery M query) (Some [(''limit'', Num 1)]) (client this)")
    obtain r2 c2 where full:
      "coll_countDocuments M coll (convertQuery M query) None (client this) = (r2, c2)"
      by (cases "coll_countDocuments M coll (convertQuery M query) None (client this)")
    from law one full have r1: "r1 = map_sum id (min 1) r2"
      by simp
    show ?thesis
      using Some one full r1
      by (cases r2) (simp_all add: exists_def count_def call_defs)
  qed
next
  fix coll
  assume "collection this = Some coll"
  then show "exists M this query =
              (case coll_countDocuments M coll (convertQuery M query) (Some [(''limit'', Num 1)])
                      (client this) of
                 (Inl e, c) \<Rightarrow> (Inl e, this\<lparr>client := c\<rparr>)
               | (Inr n, c) \<Rightarrow> (Inr (0 < n), this\<lparr>client := c\<rparr>))"
    by (simp add: exists_def call_defs)
qed

text \<open>The reference store keeps the law; a query that matches and one that does not.\<close>

theorem exists_iff_count_witness:
  "limit_one_law mem \<and>
   fst (count mem one_record [(''name'', Str ''a'')]) = Inr 1 \<and>
   fst (exists mem one_record [(''name'', Str ''a'')]) = Inr True \<and>
   fst (count mem one_record [(''name'', Str ''b'')]) = Inr 0 \<and>
   fst (exists mem one_record [(''name'', Str ''b'')]) = Inr False"
proof -
  have h: "limit_one_law mem"
    by (rule mem_limit_one_law)
  have a: "fst (count mem one_record [(''name'', Str ''a'')]) = Inr 1"
    by (simp add: count_def call_defs collection_one_record)
       (simp add: one_record_eq mem_def mem_countDocuments_def mem_matches_def Let_def
        convertQuery_def convertQuery_entry_def assign_def obj_get_def)
  have b: "fst (count mem one_record [(''name'', Str ''b'')]) = Inr 0"
    by (simp add: count_def call_defs collection_one_record)
       (simp add: one_record_eq mem_def mem_countDocuments_def mem_matches_def Let_def
        convertQuery_def convertQuery_entry_def assign_def obj_get_def)
  from exists_iff_count [OF h, of one_record "[(''name'', Str ''a'')]"]
    exists_iff_count [OF h, of one_record "[(''name'', Str ''b'')]"] h a b
  show ?thesis
    by simp
qed

section \<open>Translating a query\<close>

text \<open>
  What \<open>convertQuery\<close> does to a query whose keys are distinct. The identifier field is
  replaced by a native \<^verbatim>\<open>ObjectId\<close> when it is a string that \<^verbatim>\<open>ObjectId.isValid\<close> accepts,
  and is passed as it is otherwise, a number included. Every other field is passed as
  it is, with one exception: a field named \<^verbatim>\<open>__proto__\<close> does not reach the translated
  query.
\<close>

lemma convertQuery_entry_lookup:
  "map_of (convertQuery_entry M acc (key, val)) k =
     (if k = key \<and> key \<noteq> ''__proto__''
      then Some (if key = ''_id''
                 then (case val of
                         Str s \<Rightarrow> if oid_isValid M s then Oid (oid_new M s) else val
                       | _ \<Rightarrow> val)
                 else val)
      else map_of acc k)"
  by (auto simp: convertQuery_entry_def assign_def update_conv' split: jsval.splits)

lemma foldl_convertQuery_entry:
  "distinct (map fst query) \<Longrightarrow>
   map_of (foldl (convertQuery_entry M) acc query) k =
     (case map_of query k of
        None \<Rightarrow> map_of acc k
      | Some val \<Rightarrow>
          if k = ''__proto__'' then map_of acc k
          else Some (if k = ''_id''
                     then (case val of
                             Str s \<Rightarrow> if oid_isValid M s then Oid (oid_new M s) else val
                           | _ \<Rightarrow> val)
                     else val))"
proof (induction query arbitrary: acc)
  case Nil
  then show ?case by simp
next
  case (Cons entry query)
  obtain key val where entry: "entry = (key, val)"
    by (cases entry)
  from Cons.prems entry have fresh_key: "map_of query key = None" and rest: "distinct (map fst query)"
    by (auto simp: map_of_eq_None_iff)
  have ih: "map_of (foldl (convertQuery_entry M) (convertQuery_entry M acc (key, val)) query) k =
     (case map_of query k of
        None \<Rightarrow> map_of (convertQuery_entry M acc (key, val)) k
      | Some v \<Rightarrow>
          if k = ''__proto__'' then map_of (convertQuery_entry M acc (key, val)) k
          else Some (if k = ''_id''
                     then (case v of
                             Str s \<Rightarrow> if oid_isValid M s then Oid (oid_new M s) else v
                           | _ \<Rightarrow> v)
                     else v))"
    by (rule Cons.IH [OF rest])
  show ?case
  proof (cases "k = key")
    case True
    show ?thesis
      unfolding entry foldl_Cons ih
      using True fresh_key by (simp add: convertQuery_entry_lookup)
  next
    case False
    show ?thesis
      unfolding entry foldl_Cons ih
      using False by (simp add: convertQuery_entry_lookup split: option.splits)
  qed
qed

lemma convertQuery_lookup:
  assumes "distinct (map fst query)"
  shows "map_of (convertQuery M query) ''_id'' =
           (case map_of query ''_id'' of
              None \<Rightarrow> None
            | Some (Str s) \<Rightarrow> Some (if oid_isValid M s then Oid (oid_new M s) else Str s)
            | Some val \<Rightarrow> Some val)"
    and "k \<noteq> ''_id'' \<Longrightarrow> k \<noteq> ''__proto__'' \<Longrightarrow> map_of (convertQuery M query) k = map_of query k"
    and "map_of (convertQuery M query) ''__proto__'' = None"
  using assms
  by (simp_all add: convertQuery_def foldl_convertQuery_entry split: option.splits jsval.splits)

text \<open>
  Claim C4 at a query with an own property \<^verbatim>\<open>__proto__\<close>, as \<^verbatim>\<open>JSON.parse\<close> produces it
  from the text \<^verbatim>\<open>{"__proto__": 1, "name": "a"}\<close>: the field is not a field of the
  translated query, where the claim has every non-identifier field passed through.
\<close>

theorem convertQuery_drops_proto:
  "convertQuery M [(''__proto__'', Num 1), (''name'', Str ''a'')] = [(''name'', Str ''a'')] \<and>
   map_of [(''__proto__'', Num 1), (''name'', Str ''a'')] ''__proto__'' = Some (Num 1) \<and>
   map_of (convertQuery M [(''__proto__'', Num 1), (''name'', Str ''a'')]) ''__proto__'' = None"
  by (simp add: convertQuery_def convertQuery_entry_def assign_def)

section \<open>What update sends to the store\<close>

text \<open>
  On a connected adapter \<open>update\<close> is one \<^verbatim>\<open>updateMany\<close> with the translated query as
  filter and \<^verbatim>\<open>{$set: payload}\<close> as update document, and its result is the store's
  result for that request: the modified count, or the store's error. The payload holds
  every field of the patch with the caller's value, except that it has no identifier
  and that \<^verbatim>\<open>_updatedAt\<close> is the clock reading of the call. For a query with distinct keys
  the filter holds the converted identifier and every other field of the query with the
  caller's value, except a field named \<^verbatim>\<open>__proto__\<close>, which it does not hold.
\<close>

lemma update_request:
  assumes "collection this = Some coll"
  shows "\<exists>mongoQuery payload.
           update M now this query data =
             (case coll_updateMany M coll mongoQuery [(''$set'', Obj payload)] (client this) of
                (result, c) \<Rightarrow> (result, this\<lparr>client := c\<rparr>)) \<and>
           (\<forall>k. map_of payload k =
                (if k = ''_id'' then None
                 else if k = ''_updatedAt'' then Some (Str (toISOString now))
                 else map_of data k)) \<and>
           (distinct (map fst query) \<longrightarrow>
              map_of mongoQuery ''_id'' =
                (case map_of query ''_id'' of
                   None \<Rightarrow> None
                 | Some (Str s) \<Rightarrow> Some (if oid_isValid M s then Oid (oid_new M s) else Str s)
                 | Some val \<Rightarrow> Some val) \<and>
              map_of mongoQuery ''__proto__'' = None \<and>
              (\<forall>k. k \<noteq> ''_id'' \<longrightarrow> k \<noteq> ''__proto__'' \<longrightarrow>
                   map_of mongoQuery k = map_of query k))"
proof (intro exI conjI impI allI)
  show "update M now this query data =
             (case coll_updateMany M coll (convertQuery M query)
                     [(''$set'', Obj (updateData now data))] (client this) of
                (result, c) \<Rightarrow> (result, this\<lparr>client := c\<rparr>))"
    using assms by (simp add: update_def ensureConnected_def request_Inr)
  show "map_of (updateData now data) k =
                (if k = ''_id'' then None
                 else if k = ''_updatedAt'' then Some (Str (toISOString now))
                 else map_of data k)" for k
    by (rule updateData_lookup)
next
  assume d: "distinct (map fst query)"
  show "map_of (convertQuery M query) ''_id'' =
                (case map_of query ''_id'' of
                   None \<Rightarrow> None
                 | Some (Str s) \<Rightarrow> Some (if oid_isValid M s then Oid (oid_new M s) else Str s)
                 | Some val \<Rightarrow> Some val)"
    by (rule convertQuery_lookup(1) [OF d])
  show "map_of (convertQuery M query) ''__proto__'' = None"
    by (rule convertQuery_lookup(3) [OF d])
  show "map_of (convertQuery M query) k = map_of query k"
    if "k \<noteq> ''_id''" "k \<noteq> ''__proto__''" for k
    using that by (rule convertQuery_lookup(2) [OF d])
qed

text \<open>
  Claim C3 at a query with an own property \<^verbatim>\<open>__proto__\<close>, as \<^verbatim>\<open>JSON.parse\<close> produces it
  from the text \<^verbatim>\<open>{"__proto__": 1, "name": "a"}\<close>. For every client the call is the call
  with the query \<^verbatim>\<open>{"name": "a"}\<close>: the translation has dropped the field. On the reference
  store holding one record, which has no field \<^verbatim>\<open>__proto__\<close> and so does not match the
  query, \<open>update\<close> rewrites that record and reports one modified record, where the
  claim has the merge applied to the records that match the query.
\<close>

theorem update_reaches_unmatched_record:
  "update M now this [(''__proto__'', Num 1), (''name'', Str ''a'')] data
     = update M now this [(''name'', Str ''a'')] data \<and>
   docs (client one_record) =
     [[(''_id'', Oid 0), (''name'', Str ''a''), (''_createdAt'', Str ''1970-01-01T00:00:00.000Z''),
       (''_updatedAt'', Str ''1970-01-01T00:00:00.000Z'')]] \<and>
   filter (mem_matches [(''__proto__'', Num 1), (''name'', Str ''a'')]) (docs (client one_record)) = [] \<and>
   update mem 1 one_record [(''__proto__'', Num 1), (''name'', Str ''a'')] [(''name'', Str ''b'')] =
     (Inr 1, one_record\<lparr>client := \<lparr>docs = [[(''_id'', Oid 0), (''name'', Str ''b''),
        (''_createdAt'', Str ''1970-01-01T00:00:00.000Z''),
        (''_updatedAt'', Str ''1970-01-01T00:00:00.001Z'')]], next_oid = 1\<rparr>\<rparr>)"
proof -
  have same: "convertQuery M [(''__proto__'', Num 1), (''name'', Str ''a'')]
      = convertQuery M [(''name'', Str ''a'')]"
    by (simp add: convertQuery_def convertQuery_entry_def assign_def)
  have first: "update M now this [(''__proto__'', Num 1), (''name'', Str ''a'')] data
     = update M now this [(''name'', Str ''a'')] data"
    unfolding update_def same by (rule refl)
  have stored: "docs (client one_record) =
     [[(''_id'', Oid 0), (''name'', Str ''a''), (''_createdAt'', Str ''1970-01-01T00:00:00.000Z''),
       (''_updatedAt'', Str ''1970-01-01T00:00:00.000Z'')]]"
    by (simp add: one_record_eq toISOString_0)
  have unmatched: "filter (mem_matches [(''__proto__'', Num 1), (''name'', Str ''a'')])
      (docs (client one_record)) = []"
    by (simp add: stored mem_matches_def obj_get_def)
  have run: "update mem 1 one_record [(''__proto__'', Num 1), (''name'', Str ''a'')] [(''name'', Str ''b'')] =
     (Inr 1, one_record\<lparr>client := \<lparr>docs = [[(''_id'', Oid 0), (''name'', Str ''b''),
        (''_createdAt'', Str ''1970-01-01T00:00:00.000Z''),
        (''_updatedAt'', Str ''1970-01-01T00:00:00.001Z'')]], next_oid = 1\<rparr>\<rparr>)"
    by (simp add: update_def call_defs collection_one_record)
       (simp add: one_record_eq mem_def mem_updateMany_def mem_matches_def mem_merge_def
        convertQuery_def convertQuery_entry_def assign_def updateData_def obj_get_def
        toISOString_0 toISOString_1)
  from first stored unmatched run show ?thesis
    by blast
qed

end
